theory Spec2Isabelle
  imports Complex_Main "HOL-Library.AList" "HOL-Library.Product_Lexorder"
begin

section \<open>JavaScript values\<close>

text \<open>
  The forecasting service of the finance tracker is TypeScript. Its values are modelled
  as follows.

  \<^item> A JavaScript number is \<open>Num x\<close> or \<open>NaN\<close>. Finite doubles are idealised: calendar
    years, months and counts are unbounded integers (\<open>int number\<close>), amounts are reals
    (\<open>real number\<close>), and no operation rounds or overflows. The infinities and the
    negative zero are not represented.
  \<^item> A string is a \<open>char list\<close>; a property that may be \<^verbatim>\<open>undefined\<close> at run time
    is a \<open>string option\<close> with \<open>None\<close> for \<^verbatim>\<open>undefined\<close>.
  \<^item> A thrown exception is a value of type \<open>error\<close>, returned as \<open>Inl\<close>.
\<close>

datatype 'a number = Num 'a | NaN

datatype error =
    Error string          \<comment> \<open>\<^verbatim>\<open>throw new Error(msg)\<close>\<close>
  | TypeError             \<comment> \<open>a property read or a method call on \<^verbatim>\<open>undefined\<close>\<close>
  | FetchError string     \<comment> \<open>a rejected \<^verbatim>\<open>fetch\<close> or \<^verbatim>\<open>response.text()\<close>\<close>
  | QuotaExceededError    \<comment> \<open>\<^verbatim>\<open>localStorage.setItem\<close> refusing the write\<close>
  | SyntaxError           \<comment> \<open>\<^verbatim>\<open>JSON.parse\<close> on text that is not JSON\<close>

subsection \<open>Arithmetic and comparison\<close>

fun nadd :: "'a::plus number \<Rightarrow> 'a number \<Rightarrow> 'a number" where
  "nadd (Num a) (Num b) = Num (a + b)"
| "nadd _ _ = NaN"

fun nsub :: "'a::minus number \<Rightarrow> 'a number \<Rightarrow> 'a number" where
  "nsub (Num a) (Num b) = Num (a - b)"
| "nsub _ _ = NaN"

fun nmul :: "'a::times number \<Rightarrow> 'a number \<Rightarrow> 'a number" where
  "nmul (Num a) (Num b) = Num (a * b)"
| "nmul _ _ = NaN"

text \<open>
  Division: JavaScript gives \<open>NaN\<close> for \<open>0 / 0\<close> and an infinity for \<open>x / 0\<close>; both are
  \<open>NaN\<close> here, the model having no infinity. Every division of the service is by the
  constant 12, by a length that was tested positive, or by a value that was tested
  \<open>> 0\<close> on the line before.
\<close>

fun ndiv :: "real number \<Rightarrow> real number \<Rightarrow> real number" where
  "ndiv (Num a) (Num b) = (if b = 0 then NaN else Num (a / b))"
| "ndiv _ _ = NaN"

text \<open>\<^verbatim>\<open>a > b\<close> is false as soon as one side is \<open>NaN\<close>; \<^verbatim>\<open>a !== b\<close> is then true.\<close>

fun ngt :: "'a::ord number \<Rightarrow> 'a number \<Rightarrow> bool" where
  "ngt (Num a) (Num b) = (b < a)"
| "ngt _ _ = False"

fun nne :: "'a number \<Rightarrow> 'a number \<Rightarrow> bool" where
  "nne (Num a) (Num b) = (a \<noteq> b)"
| "nne _ _ = True"

fun nmax :: "'a::linorder number \<Rightarrow> 'a number \<Rightarrow> 'a number" where
  "nmax (Num a) (Num b) = Num (max a b)"
| "nmax _ _ = NaN"

fun nmin :: "'a::linorder number \<Rightarrow> 'a number \<Rightarrow> 'a number" where
  "nmin (Num a) (Num b) = Num (min a b)"
| "nmin _ _ = NaN"

text \<open>
  \<^verbatim>\<open>Math.max(...xs)\<close> and \<^verbatim>\<open>Math.min(...xs)\<close> on a list with first element \<open>x\<close>:
  \<open>NaN\<close> as soon as one argument is. The service calls them on non-empty lists only.
\<close>

definition math_max :: "'a::linorder number \<Rightarrow> 'a number list \<Rightarrow> 'a number" where
  "math_max x xs = foldl nmax x xs"

definition math_min :: "'a::linorder number \<Rightarrow> 'a number list \<Rightarrow> 'a number" where
  "math_min x xs = foldl nmin x xs"

fun to_real :: "int number \<Rightarrow> real number" where
  "to_real (Num i) = Num (real_of_int i)"
| "to_real NaN = NaN"

subsection \<open>Strings\<close>

definition is_digit :: "char \<Rightarrow> bool" where
  "is_digit c = (c \<in> set ''0123456789'')"

text \<open>White space of \<^verbatim>\<open>trim\<close> and of \<^verbatim>\<open>parseFloat\<close>, as far as ASCII goes.\<close>

definition is_space :: "char \<Rightarrow> bool" where
  "is_space c = (c \<in> {CHR 0x09, CHR 0x0A, CHR 0x0B, CHR 0x0C, CHR 0x0D, CHR 0x20})"

definition trim :: "string \<Rightarrow> string" where
  "trim s = rev (dropWhile is_space (rev (dropWhile is_space s)))"

text \<open>
  \<^verbatim>\<open>s.split(c)\<close> for a one-character separator, scanning left to right with the
  current field in \<open>cur\<close> (reversed): never the empty array, and \<^verbatim>\<open>"".split(c)\<close> is
  \<^verbatim>\<open>[""]\<close>.
\<close>

fun split_from :: "char \<Rightarrow> string \<Rightarrow> string \<Rightarrow> string list" where
  "split_from c cur [] = [rev cur]"
| "split_from c cur (x # xs) =
     (if x = c then rev cur # split_from c [] xs else split_from c (x # cur) xs)"

definition split_on :: "char \<Rightarrow> string \<Rightarrow> string list" where
  "split_on c s = split_from c [] s"

definition digit_val :: "char \<Rightarrow> nat" where
  "digit_val c = of_char c - 48"

definition dec_val :: "string \<Rightarrow> nat" where
  "dec_val s = foldl (\<lambda>a c. 10 * a + digit_val c) 0 s"

definition digit_char :: "nat \<Rightarrow> char" where
  "digit_char d = ''0123456789'' ! d"

fun show_nat :: "nat \<Rightarrow> string" where
  "show_nat n = (if n < 10 then [digit_char n] else show_nat (n div 10) @ [digit_char (n mod 10)])"

declare show_nat.simps [simp del]

text \<open>\<^verbatim>\<open>n.toString()\<close> and \<^verbatim>\<open>`${n}`\<close> for an integer (below \<open>10\<^sup>2\<^sup>1\<close>) or \<open>NaN\<close>.\<close>

fun to_string :: "int number \<Rightarrow> string" where
  "to_string NaN = ''NaN''"
| "to_string (Num i) = (if i < 0 then CHR ''-'' # show_nat (nat (- i)) else show_nat (nat i))"

definition padStart :: "nat \<Rightarrow> char \<Rightarrow> string \<Rightarrow> string" where
  "padStart n c s = replicate (n - length s) c @ s"

text \<open>
  \<^verbatim>\<open>Number(s)\<close> on a date component. A string of decimal digits is its value and the
  empty string is 0, as in JavaScript. Every other string is \<open>NaN\<close> here; JavaScript
  agrees unless the string is a numeric literal of another shape (a fraction, an
  exponent, a radix prefix, surrounding white space, \<^verbatim>\<open>Infinity\<close>). The theorems
  about dates assume components made of decimal digits.
\<close>

definition js_Number :: "string \<Rightarrow> int number" where
  "js_Number s = (if list_all is_digit s then Num (int (dec_val s)) else NaN)"

text \<open>The exponent part \<^verbatim>\<open>e[+-]ddd\<close> of a decimal literal; 0 when there is none.\<close>

definition exponent_part :: "string \<Rightarrow> int" where
  "exponent_part r =
     (case r of
        [] \<Rightarrow> 0
      | c # r' \<Rightarrow>
          if c = CHR ''e'' \<or> c = CHR ''E'' then
            (case r' of
               [] \<Rightarrow> 0
             | s # r'' \<Rightarrow>
                 if s = CHR ''-'' then - int (dec_val (takeWhile is_digit r''))
                 else if s = CHR ''+'' then int (dec_val (takeWhile is_digit r''))
                 else int (dec_val (takeWhile is_digit r')))
          else 0)"

text \<open>
  \<^verbatim>\<open>parseFloat(s)\<close>: skip leading white space, read the longest prefix that is a
  decimal literal (sign, digits, fraction, exponent), ignore what follows; \<open>NaN\<close> when
  there is no such prefix. The literal \<^verbatim>\<open>Infinity\<close> is outside the model.
\<close>

definition parseFloat :: "string \<Rightarrow> real number" where
  "parseFloat s =
     (let t = dropWhile is_space s;
          neg = (t \<noteq> [] \<and> hd t = CHR ''-'');
          u = (if t \<noteq> [] \<and> (hd t = CHR ''-'' \<or> hd t = CHR ''+'') then tl t else t);
          ip = takeWhile is_digit u;
          r1 = dropWhile is_digit u;
          dot = (r1 \<noteq> [] \<and> hd r1 = CHR ''.'');
          fp = (if dot then takeWhile is_digit (tl r1) else []);
          r2 = (if dot then dropWhile is_digit (tl r1) else r1);
          mant = real (dec_val ip) + real (dec_val fp) / 10 ^ length fp;
          ex = exponent_part r2;
          v = (if 0 \<le> ex then mant * 10 ^ nat ex else mant / 10 ^ nat (- ex))
      in if ip = [] \<and> fp = [] then NaN else Num (if neg then - v else v))"

text \<open>\<^verbatim>\<open>String(v)\<close> for a string that may be \<^verbatim>\<open>undefined\<close>.\<close>

fun js_String :: "string option \<Rightarrow> string" where
  "js_String None = ''undefined''"
| "js_String (Some s) = s"

section \<open>Data model\<close>

record CSVTransaction =
  id' :: "string option"
  date :: "string option"
  type' :: "string option"
  category :: "string option"
  description :: "string option"
  amount :: "real number"
  currency :: "string option"
  merchantId :: "string option"
  merchantName :: "string option"
  mcc :: "string option"
  isRecurring :: "string option"
  essentiality :: "string option"
  labelRecurring :: "string option"
  labelEssential :: "string option"

record MonthlyData =
  year :: "int number"
  month :: "int number"
  monthKey :: string
  totalIncome :: "real number"
  totalExpenses :: "real number"
  transactionCount :: nat

record ProjectedMonthlyData =
  p_monthKey :: string
  projectedIncome :: "real number"
  projectedExpenses :: "real number"

record ProjectionResult =
  projections :: "ProjectedMonthlyData list"
  modelAccuracy :: "real number option"
  trainingDate :: string
  historicalMonths :: nat

section \<open>Record Parser\<close>

text \<open>
  The object \<^verbatim>\<open>transaction\<close> of \<^verbatim>\<open>parseCSV\<close>: header \<open>i\<close> is set to value \<open>i\<close>, a later
  header of the same name overwriting an earlier one. A name that is no header reads
  as \<^verbatim>\<open>undefined\<close>.
\<close>

definition row_object :: "string list \<Rightarrow> string list \<Rightarrow> (string \<rightharpoonup> string)" where
  "row_object headers values = fold (\<lambda>(h, v) m. m(h \<mapsto> v)) (zip headers values) Map.empty"

text \<open>\<^verbatim>\<open>v !== "" ? v : d\<close>\<close>

definition or_default :: "string option \<Rightarrow> string \<Rightarrow> string option" where
  "or_default v d = (if v \<noteq> Some [] then v else Some d)"

definition typedTxn :: "(string \<rightharpoonup> string) \<Rightarrow> CSVTransaction" where
  "typedTxn transaction =
     \<lparr> id' = or_default (transaction ''id'') [],
       date = or_default (transaction ''date'') [],
       type' = or_default (transaction ''type'') ''expense'',
       category = or_default (transaction ''category'') [],
       description = or_default (transaction ''description'') [],
       amount = parseFloat (js_String (or_default (transaction ''amount'') ''0'')),
       currency = or_default (transaction ''currency'') [],
       merchantId = or_default (transaction ''merchantId'') [],
       merchantName = or_default (transaction ''merchantName'') [],
       mcc = or_default (transaction ''mcc'') [],
       isRecurring = or_default (transaction ''isRecurring'') [],
       essentiality = or_default (transaction ''essentiality'') [],
       labelRecurring = or_default (transaction ''labelRecurring'') [],
       labelEssential = or_default (transaction ''labelEssential'') [] \<rparr>"

text \<open>One pass of the loop body: \<open>None\<close> is the \<^verbatim>\<open>continue\<close> of a dropped line.\<close>

definition parse_line :: "string list \<Rightarrow> string \<Rightarrow> CSVTransaction option" where
  "parse_line headers line =
     (let values = split_on CHR '','' line
      in if length values \<noteq> length headers then None
         else Some (typedTxn (row_object headers values)))"

definition parseCSV :: "string \<Rightarrow> error + CSVTransaction list" where
  "parseCSV csvText =
     (case split_on CHR 0x0A (trim csvText) of
        [] \<Rightarrow> Inl TypeError
      | header_line # data_lines \<Rightarrow>
          Inr (List.map_filter (parse_line (split_on CHR '','' header_line)) data_lines))"

datatype response = Response (ok: bool) (statusText: string) (body: "error + string")

text \<open>
  \<^verbatim>\<open>loadCSVFile\<close>: \<open>fetch\<close> is the environment, from a URL to a rejection or a response;
  \<open>body\<close> is the outcome of \<^verbatim>\<open>response.text()\<close>; the \<^verbatim>\<open>catch\<close> logs and rethrows.
\<close>

definition loadCSVFile :: "(string \<Rightarrow> error + response) \<Rightarrow> string \<Rightarrow> error + CSVTransaction list" where
  "loadCSVFile fetch fileName =
     (case fetch (''/data/'' @ fileName) of
        Inl e \<Rightarrow> Inl e
      | Inr resp \<Rightarrow>
          if \<not> ok resp then Inl (Error (''Failed to load '' @ fileName @ '': '' @ statusText resp))
          else (case body resp of
                  Inl e \<Rightarrow> Inl e
                | Inr csvText \<Rightarrow> parseCSV csvText))"

section \<open>Monthly Aggregator\<close>

text \<open>
  \<^verbatim>\<open>Array.prototype.sort\<close> with a comparator: the sort is stable, a positive result puts
  the second argument first, and a result that is \<open>NaN\<close> counts as 0. For a comparator
  that orders its arguments consistently the outcome is that of a stable insertion
  sort.
\<close>

fun insert_by :: "('a \<Rightarrow> 'a \<Rightarrow> int number) \<Rightarrow> 'a \<Rightarrow> 'a list \<Rightarrow> 'a list" where
  "insert_by cmp x [] = [x]"
| "insert_by cmp x (y # ys) =
     (if ngt (cmp x y) (Num 0) then y # insert_by cmp x ys else x # y # ys)"

definition sort_by :: "('a \<Rightarrow> 'a \<Rightarrow> int number) \<Rightarrow> 'a list \<Rightarrow> 'a list" where
  "sort_by cmp xs = foldr (insert_by cmp) xs []"

text \<open>\<^verbatim>\<open>`${year}-${month.toString().padStart(2, "0")}`\<close>\<close>

definition month_key :: "int number \<Rightarrow> int number \<Rightarrow> string" where
  "month_key y m = to_string y @ ''-'' @ padStart 2 CHR ''0'' (to_string m)"

definition month_cmp :: "MonthlyData \<Rightarrow> MonthlyData \<Rightarrow> int number" where
  "month_cmp a b =
     (if nne (year a) (year b) then nsub (year a) (year b) else nsub (month a) (month b))"

text \<open>The two updates that end the loop body of \<^verbatim>\<open>aggregateByMonth\<close>.\<close>

definition add_txn :: "CSVTransaction \<Rightarrow> MonthlyData \<Rightarrow> MonthlyData" where
  "add_txn txn monthData =
     (let d = (if type' txn = Some ''income''
               then monthData\<lparr>totalIncome := nadd (totalIncome monthData) (amount txn)\<rparr>
               else monthData\<lparr>totalExpenses := nadd (totalExpenses monthData) (amount txn)\<rparr>)
      in d\<lparr>transactionCount := Suc (transactionCount d)\<rparr>)"

text \<open>
  The loop body. \<^verbatim>\<open>monthMap\<close> is a \<^verbatim>\<open>Map\<close>, which iterates in insertion order: an
  association list, a new key appended and an old key updated in place. A date that
  is \<^verbatim>\<open>undefined\<close> has no \<^verbatim>\<open>split\<close>, and a date without \<^verbatim>\<open>-\<close> leaves \<^verbatim>\<open>month\<close>
  \<^verbatim>\<open>undefined\<close>, which has no \<^verbatim>\<open>toString\<close>: both throw a TypeError.
\<close>

definition aggregate_txn ::
  "(string \<times> MonthlyData) list \<Rightarrow> CSVTransaction \<Rightarrow> error + (string \<times> MonthlyData) list" where
  "aggregate_txn monthMap txn =
     (case date txn of
        None \<Rightarrow> Inl TypeError
      | Some d \<Rightarrow>
          (case map js_Number (split_on CHR ''-'' d) of
             y # m # _ \<Rightarrow>
               (let key = month_key y m;
                    monthData =
                      (case map_of monthMap key of
                         None \<Rightarrow> \<lparr> year = y, month = m, monthKey = key, totalIncome = Num 0,
                                   totalExpenses = Num 0, transactionCount = 0 \<rparr>
                       | Some d \<Rightarrow> d)
                in Inr (AList.update key (add_txn txn monthData) monthMap))
           | _ \<Rightarrow> Inl TypeError))"

fun aggregate_loop ::
  "(string \<times> MonthlyData) list \<Rightarrow> CSVTransaction list \<Rightarrow> error + (string \<times> MonthlyData) list" where
  "aggregate_loop monthMap [] = Inr monthMap"
| "aggregate_loop monthMap (txn # txns) =
     (case aggregate_txn monthMap txn of
        Inl e \<Rightarrow> Inl e
      | Inr monthMap' \<Rightarrow> aggregate_loop monthMap' txns)"

definition aggregateByMonth :: "CSVTransaction list \<Rightarrow> error + MonthlyData list" where
  "aggregateByMonth transactions =
     (case aggregate_loop [] transactions of
        Inl e \<Rightarrow> Inl e
      | Inr monthMap \<Rightarrow> Inr (sort_by month_cmp (map snd monthMap)))"

definition filterByCurrency :: "CSVTransaction list \<Rightarrow> string \<Rightarrow> CSVTransaction list" where
  "filterByCurrency transactions cur = filter (\<lambda>txn. currency txn = Some cur) transactions"

section \<open>Feature Builder\<close>

record FeatureSet =
  features :: "real number list list"
  incomeLabels :: "real number list"
  expenseLabels :: "real number list"
  maxIncome :: "real number"
  maxExpense :: "real number"
  minYear :: "int number"
  maxYear :: "int number"

text \<open>
  The moving average of the up to three months before index \<open>i\<close>, for the total
  \<open>sel\<close> (income or expenses): the inner loop over \<open>j\<close> and the division after it.
\<close>

definition movingAvg :: "(MonthlyData \<Rightarrow> real number) \<Rightarrow> MonthlyData list \<Rightarrow> nat \<Rightarrow> real number" where
  "movingAvg sel monthlyData i =
     (let lookback = min i 3;
          s = foldl nadd (Num 0) (map (\<lambda>j. sel (monthlyData ! j)) [max 0 (i - lookback) ..< i])
      in if 0 < lookback then ndiv s (Num (real lookback)) else Num 0)"

text \<open>\<^verbatim>\<open>max > 0 ? x / max : 0\<close>\<close>

definition normalized :: "real number \<Rightarrow> real number \<Rightarrow> real number" where
  "normalized x mx = (if ngt mx (Num 0) then ndiv x mx else Num 0)"

text \<open>\<^verbatim>\<open>maxYear - minYear > 0 ? maxYear - minYear : 1\<close>\<close>

definition yearRange :: "int number \<Rightarrow> int number \<Rightarrow> int number" where
  "yearRange mn mx = (if ngt (nsub mx mn) (Num 0) then nsub mx mn else Num 1)"

definition feature_row ::
  "MonthlyData list \<Rightarrow> int number \<Rightarrow> int number \<Rightarrow> real number \<Rightarrow> real number \<Rightarrow> nat \<Rightarrow> real number list" where
  "feature_row monthlyData mn mx maxI maxE i =
     (let data = monthlyData ! i;
          normalizedMonth = ndiv (to_real (month data)) (Num 12);
          normalizedYear = ndiv (to_real (nsub (year data) mn)) (to_real (yearRange mn mx));
          normalizedMovingAvgIncome = normalized (movingAvg totalIncome monthlyData i) maxI;
          normalizedMovingAvgExpense = normalized (movingAvg totalExpenses monthlyData i) maxE
      in [normalizedMonth, normalizedYear, normalizedMovingAvgIncome, normalizedMovingAvgExpense])"

definition createFeatures :: "MonthlyData list \<Rightarrow> error + FeatureSet" where
  "createFeatures monthlyData =
     (case monthlyData of
        [] \<Rightarrow> Inl (Error ''No monthly data available for feature creation'')
      | d # ds \<Rightarrow>
          (let mn = math_min (year d) (map year ds);
               mx = math_max (year d) (map year ds);
               maxI = math_max (totalIncome d) (map totalIncome ds);
               maxE = math_max (totalExpenses d) (map totalExpenses ds);
               idx = [0 ..< length monthlyData]
           in Inr \<lparr> features = map (feature_row monthlyData mn mx maxI maxE) idx,
                    incomeLabels = map (\<lambda>i. normalized (totalIncome (monthlyData ! i)) maxI) idx,
                    expenseLabels = map (\<lambda>i. normalized (totalExpenses (monthlyData ! i)) maxE) idx,
                    maxIncome = maxI, maxExpense = maxE, minYear = mn, maxYear = mx \<rparr>))"

section \<open>Autoregressive Projector\<close>

text \<open>
  A fitted model is the function from a feature vector to the first entry of its
  prediction. \<^verbatim>\<open>xs.push(v); if (xs.length > 3) xs.shift()\<close> is \<open>push_window\<close>.
\<close>

type_synonym model = "real number list \<Rightarrow> real number"

definition push_window :: "real number list \<Rightarrow> real number \<Rightarrow> real number list" where
  "push_window recent v = (let r = recent @ [v] in if 3 < length r then tl r else r)"

definition window_avg :: "real number list \<Rightarrow> real number" where
  "window_avg recent =
     (if 0 < length recent then ndiv (foldl nadd (Num 0) recent) (Num (real (length recent)))
      else Num 0)"

fun projection_loop ::
  "nat \<Rightarrow> model \<Rightarrow> model \<Rightarrow> real number \<Rightarrow> real number \<Rightarrow> int number \<Rightarrow> int number \<Rightarrow>
   int number \<Rightarrow> int number \<Rightarrow> real number list \<Rightarrow> real number list \<Rightarrow> ProjectedMonthlyData list" where
  "projection_loop 0 incomeModel expenseModel maxI maxE mn mx currentYear currentMonth
     recentIncomes recentExpenses = []"
| "projection_loop (Suc n) incomeModel expenseModel maxI maxE mn mx currentYear currentMonth
     recentIncomes recentExpenses =
     (let m1 = nadd currentMonth (Num 1);
          wrap = ngt m1 (Num 12);
          currentMonth' = (if wrap then Num 1 else m1);
          currentYear' = (if wrap then nadd currentYear (Num 1) else currentYear);
          key = month_key currentYear' currentMonth';
          normalizedMonth = ndiv (to_real currentMonth') (Num 12);
          normalizedYear = ndiv (to_real (nsub currentYear' mn)) (to_real (yearRange mn mx));
          normalizedMovingAvgIncome = normalized (window_avg recentIncomes) maxI;
          normalizedMovingAvgExpense = normalized (window_avg recentExpenses) maxE;
          featureVector = [normalizedMonth, normalizedYear, normalizedMovingAvgIncome,
                           normalizedMovingAvgExpense];
          income = nmul (incomeModel featureVector) maxI;
          expenses = nmul (expenseModel featureVector) maxE
      in \<lparr> p_monthKey = key, projectedIncome = income, projectedExpenses = expenses \<rparr>
         # projection_loop n incomeModel expenseModel maxI maxE mn mx currentYear' currentMonth'
             (push_window recentIncomes income) (push_window recentExpenses expenses))"

text \<open>
  \<^verbatim>\<open>generateProjections\<close>: an empty history makes \<^verbatim>\<open>lastMonth\<close> \<^verbatim>\<open>undefined\<close>, and
  reading its \<^verbatim>\<open>year\<close> throws. \<^verbatim>\<open>slice(-3)\<close> is the last three entries, or all of
  them when there are fewer. The horizon \<^verbatim>\<open>numMonths\<close> is a count.
\<close>

definition generateProjections ::
  "model \<Rightarrow> model \<Rightarrow> MonthlyData list \<Rightarrow> real number \<Rightarrow> real number \<Rightarrow> int number \<Rightarrow> int number \<Rightarrow>
   nat \<Rightarrow> error + ProjectedMonthlyData list" where
  "generateProjections incomeModel expenseModel monthlyData maxI maxE mn mx numMonths =
     (if monthlyData = [] then Inl TypeError
      else
        (let lastMonth = last monthlyData;
             recent = drop (length monthlyData - 3) monthlyData
         in Inr (projection_loop numMonths incomeModel expenseModel maxI maxE mn mx
                   (year lastMonth) (month lastMonth)
                   (map totalIncome recent) (map totalExpenses recent))))"

section \<open>Result Store\<close>

text \<open>
  \<^verbatim>\<open>localStorage\<close>: a map from keys to strings, whose \<^verbatim>\<open>setItem\<close> throws when the value
  does not fit the quota that is left.
\<close>

record storage =
  items :: "string \<rightharpoonup> string"
  quota :: nat

definition setItem :: "storage \<Rightarrow> string \<Rightarrow> string \<Rightarrow> error + storage" where
  "setItem st k v =
     (if quota st < length v then Inl QuotaExceededError
      else Inr (st\<lparr>items := (items st)(k \<mapsto> v)\<rparr>))"

definition getItem :: "storage \<Rightarrow> string \<Rightarrow> string option" where
  "getItem st k = items st k"

text \<open>
  \<^verbatim>\<open>JSON.stringify\<close> and \<^verbatim>\<open>JSON.parse\<close> belong to the platform; they are parameters,
  each free to throw. Both functions of the store return \<open>error + _\<close> so that what
  reaches the caller can be stated.
\<close>

definition saveProjectionsToStorage ::
  "('r \<Rightarrow> error + string) \<Rightarrow> 'r \<Rightarrow> storage \<Rightarrow> error + storage" where
  "saveProjectionsToStorage stringify result st =
     (case (case stringify result of
              Inl e \<Rightarrow> Inl e
            | Inr dataString \<Rightarrow> setItem st ''finance-projections'' dataString) of
        Inl e \<Rightarrow> Inr st
      | Inr st' \<Rightarrow> Inr st')"

definition loadProjectionsFromStorage ::
  "(string \<Rightarrow> error + 'r) \<Rightarrow> storage \<Rightarrow> error + 'r option" where
  "loadProjectionsFromStorage parse st =
     (case getItem st ''finance-projections'' of
        None \<Rightarrow> Inr None
      | Some dataString \<Rightarrow>
          (case parse dataString of
             Inl e \<Rightarrow> Inr None
           | Inr result \<Rightarrow> Inr (Some result)))"

section \<open>Pipeline entry points\<close>

text \<open>
  \<^verbatim>\<open>generateAndSaveProjections\<close>. The environment is given as parameters: \<open>fetch\<close>; the
  two fitted models as functions of the training set (\<^verbatim>\<open>buildModel\<close> followed by
  \<^verbatim>\<open>trainModel\<close>, once per target); \<open>now\<close>, the text of \<^verbatim>\<open>new Date().toISOString()\<close>;
  \<open>stringify\<close>. The result is what the caller receives together with the store after
  the call.
\<close>

definition generateAndSaveProjections ::
  "(string \<Rightarrow> error + response) \<Rightarrow>
   (real number list list \<Rightarrow> real number list \<Rightarrow> model) \<Rightarrow>
   (real number list list \<Rightarrow> real number list \<Rightarrow> model) \<Rightarrow>
   string \<Rightarrow> (ProjectionResult \<Rightarrow> error + string) \<Rightarrow>
   string \<Rightarrow> storage \<Rightarrow> (error + ProjectionResult) \<times> storage" where
  "generateAndSaveProjections fetch trainIncome trainExpense now stringify cur st =
     (case loadCSVFile fetch ''seedTransactions_1year_13000_labeled.csv'' of
        Inl e \<Rightarrow> (Inl e, st)
      | Inr transactions \<Rightarrow>
          (let filteredTransactions = filterByCurrency transactions cur
           in if length filteredTransactions = 0
              then (Inl (Error (''No transactions found for currency: '' @ cur)), st)
              else
                (case aggregateByMonth filteredTransactions of
                   Inl e \<Rightarrow> (Inl e, st)
                 | Inr monthlyData \<Rightarrow>
                     if length monthlyData < 3
                     then (Inl (Error ''Need at least 3 months of data for meaningful predictions''), st)
                     else
                       (case createFeatures monthlyData of
                          Inl e \<Rightarrow> (Inl e, st)
                        | Inr f \<Rightarrow>
                            (let incomeModel = trainIncome (features f) (incomeLabels f);
                                 expenseModel = trainExpense (features f) (expenseLabels f)
                             in case generateProjections incomeModel expenseModel monthlyData
                                       (maxIncome f) (maxExpense f) (minYear f) (maxYear f) 12 of
                                  Inl e \<Rightarrow> (Inl e, st)
                                | Inr ps \<Rightarrow>
                                    (let result = \<lparr> projections = ps, modelAccuracy = None,
                                                     trainingDate = now,
                                                     historicalMonths = length monthlyData \<rparr>
                                     in case saveProjectionsToStorage stringify result st of
                                          Inl e \<Rightarrow> (Inl e, st)
                                        | Inr st' \<Rightarrow> (Inr result, st')))))))"

record HistoricalYearlyData =
  h_year :: "string option"
  h_income :: "real number"
  h_expenses :: "real number"

text \<open>
  The loop body of \<^verbatim>\<open>loadHistoricalYearlyData\<close>, on the \<^verbatim>\<open>Map\<close> from year text to the
  two running totals.
\<close>

definition yearly_txn ::
  "(string \<times> real number \<times> real number) list \<Rightarrow> CSVTransaction \<Rightarrow>
   error + (string \<times> real number \<times> real number) list" where
  "yearly_txn yearMap txn =
     (case date txn of
        None \<Rightarrow> Inl TypeError
      | Some d \<Rightarrow>
          (let y = hd (split_on CHR ''-'' d);
               data = (case map_of yearMap y of None \<Rightarrow> (Num 0, Num 0) | Some v \<Rightarrow> v)
           in Inr (AList.update y
                     (if type' txn = Some ''income'' then (nadd (fst data) (amount txn), snd data)
                      else (fst data, nadd (snd data) (amount txn)))
                     yearMap)))"

fun yearly_loop ::
  "(string \<times> real number \<times> real number) list \<Rightarrow> CSVTransaction list \<Rightarrow>
   error + (string \<times> real number \<times> real number) list" where
  "yearly_loop yearMap [] = Inr yearMap"
| "yearly_loop yearMap (txn # txns) =
     (case yearly_txn yearMap txn of
        Inl e \<Rightarrow> Inl e
      | Inr yearMap' \<Rightarrow> yearly_loop yearMap' txns)"

text \<open>The body of the \<^verbatim>\<open>try\<close> block; \<open>localeCompare\<close> is the platform's collation.\<close>

definition yearly_body ::
  "(string \<Rightarrow> error + response) \<Rightarrow> (string \<Rightarrow> string \<Rightarrow> int number) \<Rightarrow> string \<Rightarrow>
   error + HistoricalYearlyData list" where
  "yearly_body fetch localeCompare cur =
     (case loadCSVFile fetch ''seedTransactions_1year_13000_labeled.csv'' of
        Inl e \<Rightarrow> Inl e
      | Inr transactions \<Rightarrow>
          (case yearly_loop [] (filterByCurrency transactions cur) of
             Inl e \<Rightarrow> Inl e
           | Inr yearMap \<Rightarrow>
               Inr (sort_by (\<lambda>a b. localeCompare (js_String (h_year a)) (js_String (h_year b)))
                      (map (\<lambda>(y, data). \<lparr> h_year = Some y, h_income = fst data,
                                           h_expenses = snd data \<rparr>) yearMap))))"

definition loadHistoricalYearlyData ::
  "(string \<Rightarrow> error + response) \<Rightarrow> (string \<Rightarrow> string \<Rightarrow> int number) \<Rightarrow> string \<Rightarrow>
   error + HistoricalYearlyData list" where
  "loadHistoricalYearlyData fetch localeCompare cur =
     (case yearly_body fetch localeCompare cur of
        Inl e \<Rightarrow> Inr []
      | Inr ys \<Rightarrow> Inr ys)"

section \<open>Notions used to state the properties\<close>





text \<open>
  Months counted from January of year 0: month number \<open>a\<close> is month \<open>a mod 12 + 1\<close> of
  year \<open>a div 12\<close>, so that month number \<open>a + 1\<close> is the calendar month after month
  number \<open>a\<close>, December being followed by January of the next year.
\<close>

definition month_at :: "int \<Rightarrow> int \<times> int" where
  "month_at a = (a div 12, a mod 12 + 1)"

definition month_key_at :: "int \<Rightarrow> string" where
  "month_key_at a = month_key (Num (fst (month_at a))) (Num (snd (month_at a)))"










section \<open>Properties of the Record Parser\<close>




lemma fold_upd_map_of:
  "fold (\<lambda>(h, v) m. m(h \<mapsto> v)) kvs m = m ++ map_of (rev kvs)"
proof (induction kvs arbitrary: m)
  case Nil
  show ?case by simp
next
  case (Cons kv kvs)
  obtain k v where kv: "kv = (k, v)" by (cases kv)
  have "fold (\<lambda>(h, v) m. m(h \<mapsto> v)) (kv # kvs) m = m(k \<mapsto> v) ++ map_of (rev kvs)"
    by (simp only: kv fold_simps prod.case Cons.IH)
  also have "m(k \<mapsto> v) = m ++ [k \<mapsto> v]" by simp
  also have "(m ++ [k \<mapsto> v]) ++ map_of (rev kvs) = m ++ map_of (rev (kv # kvs))"
    by (simp add: kv)
  finally show ?case .
qed

lemma row_object_nth:
  assumes "distinct headers" "k < length headers" "length values = length headers"
  shows "row_object headers values (headers ! k) = Some (values ! k)"
proof -
  have d: "distinct (map fst (rev (zip headers values)))"
    using assms by (simp flip: rev_map)
  have "(headers ! k, values ! k) \<in> set (rev (zip headers values))"
    using assms by (auto simp: set_zip)
  with d have "map_of (rev (zip headers values)) (headers ! k) = Some (values ! k)"
    by (rule map_of_is_SomeI)
  then show ?thesis by (simp add: row_object_def fold_upd_map_of)
qed





lemma parse_line_Some:
  "length (split_on CHR '','' line) = length headers \<Longrightarrow>
   parse_line headers line = Some (typedTxn (row_object headers (split_on CHR '','' line)))"
  by (simp add: parse_line_def)




lemma type_typedTxn:
  "type' (typedTxn m) = (case m ''type'' of None \<Rightarrow> None | Some a \<Rightarrow> if a = [] then Some ''expense'' else Some a)"
  by (simp add: typedTxn_def or_default_def split: option.splits)

lemma aggregate_txn_Inr:
  assumes "aggregate_txn monthMap txn = Inr monthMap'"
  obtains d y m rest where "date txn = Some d"
    and "map js_Number (split_on CHR ''-'' d) = y # m # rest"
    and "monthMap' = AList.update (month_key y m)
           (add_txn txn (case map_of monthMap (month_key y m) of
                           None \<Rightarrow> \<lparr> year = y, month = m, monthKey = month_key y m, totalIncome = Num 0,
                                     totalExpenses = Num 0, transactionCount = 0 \<rparr>
                         | Some d \<Rightarrow> d)) monthMap"
  using assms
  by (auto simp: aggregate_txn_def Let_def split: option.splits list.splits)

text \<open>
  C10: a line with the header's field count whose type field (column \<open>k\<close> of distinct
  headers) is empty becomes a record of type \<^verbatim>\<open>expense\<close>; any other text is kept as the
  type. In the aggregator, a record whose type is not \<^verbatim>\<open>income\<close> (empty-turned-expense
  or any other value) adds its amount to \<open>totalExpenses\<close> of its month and leaves that
  month's \<open>totalIncome\<close> and every other month alone; a month not seen before starts
  from 0.
\<close>

theorem empty_type_counts_as_expense:
  "(length (split_on CHR '','' line) = length headers \<and> distinct headers
      \<and> k < length headers \<and> headers ! k = ''type''
    \<longrightarrow> (\<exists>t. parse_line headers line = Some t
           \<and> type' t = Some (if split_on CHR '','' line ! k = [] then ''expense''
                              else split_on CHR '','' line ! k)))
   \<and> (aggregate_txn monthMap txn = Inr monthMap' \<and> type' txn \<noteq> Some ''income''
    \<longrightarrow> (\<exists>key d'. map_of monthMap' key = Some d'
           \<and> (\<forall>k'. k' \<noteq> key \<longrightarrow> map_of monthMap' k' = map_of monthMap k')
           \<and> totalExpenses d'
               = nadd (case map_of monthMap key of None \<Rightarrow> Num 0 | Some d \<Rightarrow> totalExpenses d)
                      (amount txn)
           \<and> totalIncome d'
               = (case map_of monthMap key of None \<Rightarrow> Num 0 | Some d \<Rightarrow> totalIncome d)))"
proof (intro conjI impI)
  assume a: "length (split_on CHR '','' line) = length headers \<and> distinct headers
      \<and> k < length headers \<and> headers ! k = ''type''"
  then have hk: "headers ! k = ''type''" by simp
  from a have "row_object headers (split_on CHR '','' line) (headers ! k)
      = Some (split_on CHR '','' line ! k)"
    by (intro row_object_nth) simp_all
  then have "row_object headers (split_on CHR '','' line) ''type''
      = Some (split_on CHR '','' line ! k)" unfolding hk .
  then have "type' (typedTxn (row_object headers (split_on CHR '','' line)))
      = Some (if split_on CHR '','' line ! k = [] then ''expense'' else split_on CHR '','' line ! k)"
    by (simp add: type_typedTxn)
  with a show "\<exists>t. parse_line headers line = Some t
           \<and> type' t = Some (if split_on CHR '','' line ! k = [] then ''expense''
                              else split_on CHR '','' line ! k)"
    by (simp add: parse_line_Some)
next
  assume a: "aggregate_txn monthMap txn = Inr monthMap' \<and> type' txn \<noteq> Some ''income''"
  then obtain d y m rest where u: "monthMap' = AList.update (month_key y m)
           (add_txn txn (case map_of monthMap (month_key y m) of
                           None \<Rightarrow> \<lparr> year = y, month = m, monthKey = month_key y m, totalIncome = Num 0,
                                     totalExpenses = Num 0, transactionCount = 0 \<rparr>
                         | Some d \<Rightarrow> d)) monthMap"
    by (auto elim: aggregate_txn_Inr)
  let ?key = "month_key y m"
  let ?d0 = "case map_of monthMap ?key of
               None \<Rightarrow> \<lparr> year = y, month = m, monthKey = ?key, totalIncome = Num 0,
                         totalExpenses = Num 0, transactionCount = 0 \<rparr>
             | Some d \<Rightarrow> d"
  have 1: "map_of monthMap' ?key = Some (add_txn txn ?d0)"
    by (simp add: u update_conv')
  have 2: "\<forall>k'. k' \<noteq> ?key \<longrightarrow> map_of monthMap' k' = map_of monthMap k'"
    by (simp add: u update_conv')
  from a have 3: "totalExpenses (add_txn txn ?d0)
      = nadd (case map_of monthMap ?key of None \<Rightarrow> Num 0 | Some d \<Rightarrow> totalExpenses d) (amount txn)"
    by (simp add: add_txn_def split: option.splits)
  from a have 4: "totalIncome (add_txn txn ?d0)
      = (case map_of monthMap ?key of None \<Rightarrow> Num 0 | Some d \<Rightarrow> totalIncome d)"
    by (simp add: add_txn_def split: option.splits)
  from 1 2 3 4 show "\<exists>key d'. map_of monthMap' key = Some d'
           \<and> (\<forall>k'. k' \<noteq> key \<longrightarrow> map_of monthMap' k' = map_of monthMap k')
           \<and> totalExpenses d'
               = nadd (case map_of monthMap key of None \<Rightarrow> Num 0 | Some d \<Rightarrow> totalExpenses d)
                      (amount txn)
           \<and> totalIncome d'
               = (case map_of monthMap key of None \<Rightarrow> Num 0 | Some d \<Rightarrow> totalIncome d)"
    by blast
qed

theorem empty_type_counts_as_expense_witness:
  "(\<exists>t. parse_line [''date'', ''type'', ''amount''] ''2024-01-05,,5'' = Some t
        \<and> type' t = Some ''expense'')
   \<and> aggregate_txn []
        \<lparr> id' = None, date = Some ''2024-01-05'', type' = Some ''expense'', category = None,
          description = None, amount = Num 5, currency = None, merchantId = None,
          merchantName = None, mcc = None, isRecurring = None, essentiality = None,
          labelRecurring = None, labelEssential = None \<rparr>
       = Inr [(''2024-01'', \<lparr> year = Num 2024, month = Num 1, monthKey = ''2024-01'',
                              totalIncome = Num 0, totalExpenses = Num 5, transactionCount = 1 \<rparr>)]
   \<and> (\<exists>key d'. map_of [(''2024-01'', \<lparr> year = Num 2024, month = Num 1, monthKey = ''2024-01'',
                              totalIncome = Num 0, totalExpenses = Num 5, transactionCount = 1 \<rparr>)] key
                  = Some d'
          \<and> totalExpenses d' = Num 5 \<and> totalIncome d' = Num 0)"
proof -
  let ?txn = "\<lparr> id' = None, date = Some ''2024-01-05'', type' = Some ''expense'', category = None,
          description = None, amount = Num 5, currency = None, merchantId = None,
          merchantName = None, mcc = None, isRecurring = None, essentiality = None,
          labelRecurring = None, labelEssential = None \<rparr>"
  let ?mp = "[(''2024-01'', \<lparr> year = Num 2024, month = Num 1, monthKey = ''2024-01'',
                              totalIncome = Num 0, totalExpenses = Num 5, transactionCount = 1 \<rparr>)]"
  have s: "split_on CHR '','' ''2024-01-05,,5'' = [''2024-01-05'', [], ''5'']"
    by (simp add: split_on_def)
  have a: "aggregate_txn [] ?txn = Inr ?mp"
    by (simp add: aggregate_txn_def split_on_def js_Number_def is_digit_def dec_val_def
        digit_val_def month_key_def padStart_def show_nat.simps digit_char_def add_txn_def Let_def)
  note t = empty_type_counts_as_expense
    [where headers = "[''date'', ''type'', ''amount'']" and line = "''2024-01-05,,5''" and k = 1
       and monthMap = "[]" and txn = ?txn and monthMap' = ?mp]
  from t s have 1: "\<exists>t. parse_line [''date'', ''type'', ''amount''] ''2024-01-05,,5'' = Some t
        \<and> type' t = Some ''expense''" by simp
  from t a have 2: "\<exists>key d'. map_of ?mp key = Some d'
          \<and> totalExpenses d' = Num 5 \<and> totalIncome d' = Num 0" by auto
  from 1 a 2 show ?thesis by blast
qed

section \<open>Properties of the Result Store\<close>

text \<open>
  C4, as the code has it. A failing write does not reach the caller of
  \<^verbatim>\<open>saveProjectionsToStorage\<close>: the \<^verbatim>\<open>catch\<close> logs it, the function returns normally and
  the store is as before; the same holds when \<open>stringify\<close> throws, so no error ever
  leaves the function. On load, a stored payload that fails to parse is treated as
  absence: \<^verbatim>\<open>loadProjectionsFromStorage\<close> returns \<^verbatim>\<open>null\<close>.
\<close>

theorem save_swallows_load_swallows:
  "(stringify r = Inr s \<and> setItem st ''finance-projections'' s = Inl e
      \<longrightarrow> saveProjectionsToStorage stringify r st = Inr st)
   \<and> (stringify r = Inl e \<longrightarrow> saveProjectionsToStorage stringify r st = Inr st)
   \<and> (\<forall>e'. saveProjectionsToStorage stringify r st \<noteq> Inl e')
   \<and> (getItem st ''finance-projections'' = Some s \<and> parse s = Inl e
      \<longrightarrow> loadProjectionsFromStorage parse st = Inr None)"
  by (auto simp: saveProjectionsToStorage_def loadProjectionsFromStorage_def split: sum.splits)

theorem save_swallows_load_swallows_witness:
  "setItem \<lparr>items = Map.empty, quota = 0\<rparr> ''finance-projections'' ''{}'' = Inl QuotaExceededError
   \<and> saveProjectionsToStorage (\<lambda>r. Inr ''{}'') () \<lparr>items = Map.empty, quota = 0\<rparr>
       = Inr \<lparr>items = Map.empty, quota = 0\<rparr>
   \<and> getItem \<lparr>items = [''finance-projections'' \<mapsto> ''{''], quota = 9\<rparr> ''finance-projections'' = Some ''{''
   \<and> loadProjectionsFromStorage (\<lambda>s. if s = ''{'' then Inl SyntaxError else Inr ())
        \<lparr>items = [''finance-projections'' \<mapsto> ''{''], quota = 9\<rparr> = Inr None"
proof -
  have w: "setItem \<lparr>items = Map.empty, quota = 0\<rparr> ''finance-projections'' ''{}'' = Inl QuotaExceededError"
    by (simp add: setItem_def)
  have g: "getItem \<lparr>items = [''finance-projections'' \<mapsto> ''{''], quota = 9\<rparr> ''finance-projections'' = Some ''{''"
    by (simp add: getItem_def)
  note a = save_swallows_load_swallows
    [where stringify = "\<lambda>r. Inr ''{}''" and r = "()" and s = "''{}''"
       and st = "\<lparr>items = Map.empty, quota = 0\<rparr>" and e = QuotaExceededError
       and parse = "\<lambda>s. Inr ()"]
  note b = save_swallows_load_swallows
    [where stringify = "\<lambda>r. Inr ''{}''" and r = "()" and s = "''{''"
       and st = "\<lparr>items = [''finance-projections'' \<mapsto> ''{''], quota = 9\<rparr>"
       and e = SyntaxError and parse = "\<lambda>s. if s = ''{'' then Inl SyntaxError else Inr ()"]
  from a w have 1: "saveProjectionsToStorage (\<lambda>r. Inr ''{}'') () \<lparr>items = Map.empty, quota = 0\<rparr>
       = Inr \<lparr>items = Map.empty, quota = 0\<rparr>" by simp
  from b g have 2: "loadProjectionsFromStorage (\<lambda>s. if s = ''{'' then Inl SyntaxError else Inr ())
        \<lparr>items = [''finance-projections'' \<mapsto> ''{''], quota = 9\<rparr> = Inr None" by simp
  from w 1 g 2 show ?thesis by blast
qed

text \<open>
  The store refuses the two characters \<^verbatim>\<open>{}\<close> (no quota left), and the save returns
  normally all the same.
\<close>

theorem save_propagates_counterexample:
  "setItem \<lparr>items = Map.empty, quota = 0\<rparr> ''finance-projections'' ''{}'' = Inl QuotaExceededError
   \<and> saveProjectionsToStorage (\<lambda>r. Inr ''{}'') () \<lparr>items = Map.empty, quota = 0\<rparr>
       = Inr \<lparr>items = Map.empty, quota = 0\<rparr>"
  by (simp add: saveProjectionsToStorage_def setItem_def)

text \<open>
  C8: round trip. A result \<open>r\<close> is JSON-serialisable when \<open>stringify\<close> gives a text \<open>s\<close>
  that \<open>parse\<close> reads back as \<open>r\<close>. If moreover the store accepts \<open>s\<close>, then saving \<open>r\<close>
  succeeds, puts \<open>s\<close> under the key \<^verbatim>\<open>finance-projections\<close>, and loading from the store
  that results gives \<open>r\<close> back.
\<close>

theorem save_load_roundtrip:
  assumes "stringify r = Inr s" and "parse s = Inr r" and "length s \<le> quota st"
  shows "\<exists>st'. saveProjectionsToStorage stringify r st = Inr st'
           \<and> getItem st' ''finance-projections'' = Some s
           \<and> loadProjectionsFromStorage parse st' = Inr (Some r)"
  using assms
  by (simp add: saveProjectionsToStorage_def loadProjectionsFromStorage_def setItem_def getItem_def)

theorem save_load_roundtrip_witness:
  "(\<exists>st'. saveProjectionsToStorage (\<lambda>r. Inr (trainingDate r))
            \<lparr>projections = [], modelAccuracy = None, trainingDate = ''2025-01-01'', historicalMonths = 3\<rparr>
            \<lparr>items = Map.empty, quota = 100\<rparr> = Inr st'
        \<and> getItem st' ''finance-projections'' = Some ''2025-01-01''
        \<and> loadProjectionsFromStorage
             (\<lambda>s. Inr \<lparr>projections = [], modelAccuracy = None, trainingDate = s, historicalMonths = 3\<rparr>) st'
            = Inr (Some \<lparr>projections = [], modelAccuracy = None, trainingDate = ''2025-01-01'',
                          historicalMonths = 3\<rparr>))"
  using save_load_roundtrip
    [where stringify = "\<lambda>r. Inr (trainingDate r)"
       and r = "\<lparr>projections = [], modelAccuracy = None, trainingDate = ''2025-01-01'', historicalMonths = 3\<rparr>"
       and s = "''2025-01-01''"
       and parse = "\<lambda>s. Inr \<lparr>projections = [], modelAccuracy = None, trainingDate = s, historicalMonths = 3\<rparr>"
       and st = "\<lparr>items = Map.empty, quota = 100\<rparr>"]
  by simp

section \<open>Properties of the yearly view\<close>

text \<open>
  C9: \<^verbatim>\<open>loadHistoricalYearlyData\<close> never lets an error reach its caller. Whatever the
  environment does, it returns a list; and whenever the body of its \<^verbatim>\<open>try\<close> block
  throws, in particular when loading or parsing the file fails, that list is empty.
\<close>

theorem yearly_never_raises:
  "(\<exists>ys. loadHistoricalYearlyData fetch localeCompare cur = Inr ys)
   \<and> (yearly_body fetch localeCompare cur = Inl e
        \<longrightarrow> loadHistoricalYearlyData fetch localeCompare cur = Inr [])
   \<and> (loadCSVFile fetch ''seedTransactions_1year_13000_labeled.csv'' = Inl e
        \<longrightarrow> loadHistoricalYearlyData fetch localeCompare cur = Inr [])"
  by (auto simp: loadHistoricalYearlyData_def yearly_body_def split: sum.splits)

theorem yearly_never_raises_witness:
  "loadCSVFile (\<lambda>url. Inl (FetchError ''offline'')) ''seedTransactions_1year_13000_labeled.csv''
     = Inl (FetchError ''offline'')
   \<and> loadHistoricalYearlyData (\<lambda>url. Inl (FetchError ''offline'')) (\<lambda>a b. Num 0) ''GBP'' = Inr []
   \<and> yearly_body (\<lambda>url. Inr (Response True ''OK'' (Inr ''id,currency\<newline>1,GBP''))) (\<lambda>a b. Num 0) ''GBP''
     = Inl TypeError
   \<and> loadHistoricalYearlyData (\<lambda>url. Inr (Response True ''OK'' (Inr ''id,currency\<newline>1,GBP'')))
       (\<lambda>a b. Num 0) ''GBP'' = Inr []"
proof -
  have l: "loadCSVFile (\<lambda>url. Inl (FetchError ''offline'')) ''seedTransactions_1year_13000_labeled.csv''
     = Inl (FetchError ''offline'')"
    by (simp add: loadCSVFile_def)
  have b: "yearly_body (\<lambda>url. Inr (Response True ''OK'' (Inr ''id,currency\<newline>1,GBP''))) (\<lambda>a b. Num 0) ''GBP''
     = Inl TypeError"
    by (simp add: yearly_body_def loadCSVFile_def parseCSV_def split_on_def trim_def is_space_def
        parse_line_def List.map_filter_def typedTxn_def row_object_def or_default_def
        filterByCurrency_def yearly_txn_def)
  from l yearly_never_raises
    [where fetch = "\<lambda>url. Inl (FetchError ''offline'')" and localeCompare = "\<lambda>a b. Num 0"
       and cur = "''GBP''" and e = "FetchError ''offline''"]
  have 1: "loadHistoricalYearlyData (\<lambda>url. Inl (FetchError ''offline'')) (\<lambda>a b. Num 0) ''GBP'' = Inr []"
    by simp
  from b yearly_never_raises
    [where fetch = "\<lambda>url. Inr (Response True ''OK'' (Inr ''id,currency\<newline>1,GBP''))"
       and localeCompare = "\<lambda>a b. Num 0" and cur = "''GBP''" and e = TypeError]
  have 2: "loadHistoricalYearlyData (\<lambda>url. Inr (Response True ''OK'' (Inr ''id,currency\<newline>1,GBP'')))
       (\<lambda>a b. Num 0) ''GBP'' = Inr []"
    by simp
  from l 1 b 2 show ?thesis by blast
qed

section \<open>Properties of the Monthly Aggregator\<close>

subsection \<open>Decimal text and month keys\<close>

lemma digit_char_cases:
  "d < 10 \<Longrightarrow> d = 0 \<or> d = 1 \<or> d = 2 \<or> d = 3 \<or> d = 4 \<or> d = 5 \<or> d = 6 \<or> d = 7 \<or> d = 8 \<or> d = (9::nat)"
  by arith

lemma digit_char_not_dash: "d < 10 \<Longrightarrow> CHR ''-'' \<noteq> digit_char d"
  by (drule digit_char_cases) (auto simp: digit_char_def)

lemma digit_char_zero: "d < 10 \<Longrightarrow> digit_char d = CHR ''0'' \<longleftrightarrow> d = 0"
  by (drule digit_char_cases) (auto simp: digit_char_def)

lemma digit_char_inj: "d < 10 \<Longrightarrow> e < 10 \<Longrightarrow> digit_char d = digit_char e \<Longrightarrow> d = e"
  by (drule digit_char_cases, drule digit_char_cases) (auto simp: digit_char_def)

lemma show_nat_small: "n < 10 \<Longrightarrow> show_nat n = [digit_char n]"
  by (simp add: show_nat.simps)

lemma show_nat_large: "\<not> n < 10 \<Longrightarrow> show_nat n = show_nat (n div 10) @ [digit_char (n mod 10)]"
  by (subst show_nat.simps) simp

lemma show_nat_nonempty: "show_nat n \<noteq> []"
  by (subst show_nat.simps) simp

lemma show_nat_no_dash: "CHR ''-'' \<notin> set (show_nat n)"
proof (induction n rule: show_nat.induct)
  case (1 n)
  show ?case
  proof (cases "n < 10")
    case True
    then show ?thesis by (simp add: show_nat_small digit_char_not_dash)
  next
    case False
    with 1 show ?thesis by (simp add: show_nat_large digit_char_not_dash)
  qed
qed

lemma show_nat_hd: "0 < n \<Longrightarrow> hd (show_nat n) \<noteq> CHR ''0''"
proof (induction n rule: show_nat.induct)
  case (1 n)
  show ?case
  proof (cases "n < 10")
    case True
    with 1(2) show ?thesis by (simp add: show_nat_small digit_char_zero)
  next
    case False
    then have "0 < n div 10" by simp
    with 1(1) False have "hd (show_nat (n div 10)) \<noteq> CHR ''0''" by simp
    with False show ?thesis by (simp add: show_nat_large show_nat_nonempty)
  qed
qed

lemma show_nat_length: "length (show_nat n) = Suc 0 \<longleftrightarrow> n < 10"
proof (cases "n < 10")
  case True
  then show ?thesis by (simp add: show_nat_small)
next
  case False
  have "show_nat (n div 10) \<noteq> []" by (rule show_nat_nonempty)
  then have "0 < length (show_nat (n div 10))" by simp
  with False show ?thesis by (simp add: show_nat_large)
qed

lemma show_nat_inj: "show_nat n = show_nat k \<Longrightarrow> n = k"
proof (induction n arbitrary: k rule: show_nat.induct)
  case (1 n)
  show ?case
  proof (cases "n < 10")
    case True
    then have "length (show_nat k) = Suc 0" using 1(2) by (simp add: show_nat_small flip: 1(2))
    then have k: "k < 10" by (simp add: show_nat_length)
    with True 1(2) show ?thesis by (simp add: show_nat_small digit_char_inj)
  next
    case False
    then have "length (show_nat n) \<noteq> Suc 0" by (simp add: show_nat_length)
    then have k: "\<not> k < 10" using 1(2) by (simp add: show_nat_length)
    from 1(2) False k have e: "show_nat (n div 10) = show_nat (k div 10)"
      and d: "digit_char (n mod 10) = digit_char (k mod 10)"
      by (simp_all add: show_nat_large)
    from 1(1) [OF False e] have "n div 10 = k div 10" .
    moreover from d have "n mod 10 = k mod 10" by (rule digit_char_inj [rotated 2]) simp_all
    ultimately show ?thesis by (metis div_mult_mod_eq)
  qed
qed

lemma padStart2_show_nat_inj:
  assumes "padStart 2 CHR ''0'' (show_nat n) = padStart 2 CHR ''0'' (show_nat k)"
  shows "n = k"
proof -
  have one: "\<And>a b. a < 10 \<Longrightarrow> \<not> b < 10 \<Longrightarrow>
      padStart 2 CHR ''0'' (show_nat a) \<noteq> padStart 2 CHR ''0'' (show_nat b)"
  proof
    fix a b :: nat
    assume a: "a < 10" and b: "\<not> b < 10"
      and e: "padStart 2 CHR ''0'' (show_nat a) = padStart 2 CHR ''0'' (show_nat b)"
    have lb: "length (show_nat b) \<noteq> Suc 0" using b by (simp add: show_nat_length)
    have "length (show_nat b) \<noteq> 0" by (simp add: show_nat_nonempty)
    with lb have "2 \<le> length (show_nat b)" by arith
    then have "padStart 2 CHR ''0'' (show_nat b) = show_nat b" by (simp add: padStart_def)
    moreover have "padStart 2 CHR ''0'' (show_nat a) = [CHR ''0'', digit_char a]"
      using a by (simp add: padStart_def show_nat_small)
    ultimately have "hd (show_nat b) = CHR ''0''" using e by (metis list.sel(1))
    moreover have "0 < b" using b by simp
    ultimately show False using show_nat_hd by blast
  qed
  show ?thesis
  proof (cases "n < 10")
    case n: True
    show ?thesis
    proof (cases "k < 10")
      case True
      with n assms show ?thesis by (simp add: padStart_def show_nat_small digit_char_inj)
    next
      case False
      with n one assms show ?thesis by blast
    qed
  next
    case n: False
    show ?thesis
    proof (cases "k < 10")
      case True
      with n one [of k n] assms show ?thesis by simp
    next
      case False
      have "\<And>b. \<not> b < 10 \<Longrightarrow> padStart 2 CHR ''0'' (show_nat b) = show_nat b"
      proof -
        fix b :: nat assume b: "\<not> b < 10"
        have lb: "length (show_nat b) \<noteq> Suc 0" using b by (simp add: show_nat_length)
        have "length (show_nat b) \<noteq> 0" by (simp add: show_nat_nonempty)
        with lb have "2 \<le> length (show_nat b)" by arith
        then show "padStart 2 CHR ''0'' (show_nat b) = show_nat b" by (simp add: padStart_def)
      qed
      with n False assms have "show_nat n = show_nat k" by simp
      then show ?thesis by (rule show_nat_inj)
    qed
  qed
qed

lemma month_key_inj:
  assumes "0 \<le> y" "0 \<le> m" "0 \<le> y'" "0 \<le> m'"
    and "month_key (Num y) (Num m) = month_key (Num y') (Num m')"
  shows "y = y' \<and> m = m'"
proof -
  from assms have e: "show_nat (nat y) @ CHR ''-'' # padStart 2 CHR ''0'' (show_nat (nat m))
      = show_nat (nat y') @ CHR ''-'' # padStart 2 CHR ''0'' (show_nat (nat m'))"
    by (simp add: month_key_def)
  have nd: "CHR ''-'' \<notin> set (padStart 2 CHR ''0'' (show_nat (nat m)))"
    using show_nat_no_dash [of "nat m"] by (auto simp: padStart_def)
  have "show_nat (nat y) = show_nat (nat y')
      \<and> padStart 2 CHR ''0'' (show_nat (nat m)) = padStart 2 CHR ''0'' (show_nat (nat m'))"
    using e show_nat_no_dash [of "nat y"] nd
      append_Cons_eq_iff [where x = "CHR ''-''" and xs = "show_nat (nat y)"
        and xs' = "show_nat (nat y')" and ys = "padStart 2 CHR ''0'' (show_nat (nat m))"
        and ys' = "padStart 2 CHR ''0'' (show_nat (nat m'))"]
    by blast
  then have "nat y = nat y'" "nat m = nat m'"
    by (auto dest: show_nat_inj padStart2_show_nat_inj)
  with assms(1-4) show ?thesis by auto
qed

subsection \<open>The loop\<close>









subsection \<open>The sort\<close>












subsection \<open>The aggregates\<close>





text \<open>
  Outside the well-dated records: a record whose date is \<^verbatim>\<open>undefined\<close>, or has no
  \<^verbatim>\<open>-\<close> in it (the empty date that the parser leaves for an empty field is one), makes
  the aggregator throw.
\<close>

lemma split_from_no_sep: "c \<notin> set s \<Longrightarrow> split_from c cur s = [rev cur @ s]"
  by (induction s arbitrary: cur) auto

lemma aggregate_txn_undated:
  assumes "date t = None \<or> (\<exists>d. date t = Some d \<and> CHR ''-'' \<notin> set d)"
  shows "aggregate_txn mp t = Inl TypeError"
  using assms by (auto simp: aggregate_txn_def split_on_def split_from_no_sep)

lemma aggregateByMonth_undated:
  assumes "date t = None \<or> (\<exists>d. date t = Some d \<and> CHR ''-'' \<notin> set d)"
  shows "aggregateByMonth (t # ts) = Inl TypeError"
  using aggregate_txn_undated [OF assms] by (simp add: aggregateByMonth_def)

section \<open>Properties of the Autoregressive Projector\<close>

lemma projection_loop_length:
  "length (projection_loop n im em maxI maxE mn mx cy cm ri re) = n"
  by (induction n arbitrary: cy cm ri re) (simp_all add: Let_def)

lemma projection_loop_Suc:
  "\<exists>p ri' re'.
     projection_loop (Suc n) im em maxI maxE mn mx (Num y) (Num m) ri re
       = p # projection_loop n im em maxI maxE mn mx
               (Num (if 12 < m + 1 then y + 1 else y)) (Num (if 12 < m + 1 then 1 else m + 1)) ri' re'
     \<and> p_monthKey p = month_key (Num (if 12 < m + 1 then y + 1 else y))
                                   (Num (if 12 < m + 1 then 1 else m + 1))"
  by (simp add: Let_def) blast

lemma projection_loop_keys:
  assumes "1 \<le> m" "m \<le> 12"
  shows "map p_monthKey (projection_loop n im em maxI maxE mn mx (Num y) (Num m) ri re)
         = map (\<lambda>i. month_key_at (12 * y + m + int i)) [0..<n]"
  using assms
proof (induction n arbitrary: y m ri re)
  case 0
  show ?case by simp
next
  case (Suc n)
  define m' where "m' = (if 12 < m + 1 then 1 else m + 1)"
  define y' where "y' = (if 12 < m + 1 then y + 1 else y)"
  have m': "1 \<le> m'" "m' \<le> 12" using Suc.prems by (auto simp: m'_def)
  have idx: "12 * y' + m' = 12 * y + m + 1" using Suc.prems by (auto simp: m'_def y'_def)
  have dv: "(12 * y + m) div 12 = y'" "(12 * y + m) mod 12 + 1 = m'"
    using Suc.prems by (auto simp: m'_def y'_def)
  have hd: "month_key_at (12 * y + m + int 0) = month_key (Num y') (Num m')"
    by (simp only: month_key_at_def month_at_def fst_conv snd_conv dv of_nat_0 add.right_neutral)
  have tl: "map (\<lambda>i. month_key_at (12 * y + m + int (Suc i))) [0..<n]
          = map (\<lambda>i. month_key_at (12 * y' + m' + int i)) [0..<n]"
  proof -
    have "\<And>i. 12 * y + m + int (Suc i) = 12 * y' + m' + int i"
      using idx by simp
    then show ?thesis by (simp only:)
  qed
  have "map (\<lambda>i. month_key_at (12 * y + m + int i)) [0..<Suc n]
      = month_key_at (12 * y + m + int 0) # map (\<lambda>i. month_key_at (12 * y + m + int (Suc i))) [0..<n]"
    by (simp only: map_upt_Suc)
  also have "\<dots> = month_key (Num y') (Num m') # map (\<lambda>i. month_key_at (12 * y' + m' + int i)) [0..<n]"
    by (simp only: hd tl)
  finally have rhs: "map (\<lambda>i. month_key_at (12 * y + m + int i)) [0..<Suc n]
      = month_key (Num y') (Num m') # map (\<lambda>i. month_key_at (12 * y' + m' + int i)) [0..<n]" .
  have step: "\<And>ri' re'. map p_monthKey (projection_loop n im em maxI maxE mn mx (Num y') (Num m') ri' re')
      = map (\<lambda>i. month_key_at (12 * y' + m' + int i)) [0..<n]"
    using Suc.IH [OF m'] .
  obtain p ri' re' where
    lp: "projection_loop (Suc n) im em maxI maxE mn mx (Num y) (Num m) ri re
       = p # projection_loop n im em maxI maxE mn mx (Num y') (Num m') ri' re'"
    and pk: "p_monthKey p = month_key (Num y') (Num m')"
    unfolding y'_def m'_def using projection_loop_Suc by blast
  show ?case
    unfolding rhs lp by (simp only: list.map pk step)
qed

lemma divmod12:
  fixes q r :: int
  assumes "0 \<le> r" "r < 12"
  shows "(12 * q + r) div 12 = q" "(12 * q + r) mod 12 = r"
  using assms by (simp_all add: int_div_pos_eq [of _ 12 q r] int_mod_pos_eq [of _ 12 q r])

lemma month_at_next:
  "month_at (a + 1) = (if snd (month_at a) = 12 then (fst (month_at a) + 1, 1)
                       else (fst (month_at a), snd (month_at a) + 1))"
proof -
  define q where "q = a div 12"
  define r where "r = a mod 12"
  have r: "0 \<le> r" "r < 12" by (simp_all add: r_def)
  have a: "a = 12 * q + r" by (simp add: q_def r_def)
  show ?thesis
  proof (cases "r = 11")
    case True
    then have e: "a + 1 = 12 * (q + 1) + 0" using a by simp
    have "(a + 1) div 12 = q + 1" "(a + 1) mod 12 = 0"
      unfolding e by (rule divmod12; simp)+
    with True show ?thesis by (simp add: month_at_def q_def [symmetric] r_def [symmetric])
  next
    case False
    with r have r1: "0 \<le> r + 1" "r + 1 < 12" by simp_all
    have e: "a + 1 = 12 * q + (r + 1)" using a by simp
    have "(a + 1) div 12 = q" "(a + 1) mod 12 = r + 1"
      unfolding e using r1 by (rule divmod12)+
    with False show ?thesis by (simp add: month_at_def q_def [symmetric] r_def [symmetric])
  qed
qed

lemma month_at_mono: "a < b \<Longrightarrow> month_at a < month_at b"
proof -
  assume lt: "a < b"
  then have le: "a div 12 \<le> b div 12" by (simp add: zdiv_mono1)
  have "a mod 12 < b mod 12" if "a div 12 = b div 12"
  proof -
    have "a = 12 * (a div 12) + a mod 12" "b = 12 * (b div 12) + b mod 12" by simp_all
    with that lt show ?thesis by linarith
  qed
  with le have "a div 12 < b div 12 \<or> (a div 12 \<le> b div 12 \<and> a mod 12 + 1 < b mod 12 + 1)"
    by (cases "a div 12 = b div 12") simp_all
  then show ?thesis by (simp only: month_at_def less_prod_simp)
qed

lemma month_at_inj: "month_at a = month_at b \<Longrightarrow> a = b"
proof -
  assume "month_at a = month_at b"
  then have "a div 12 = b div 12" "a mod 12 = b mod 12" by (simp_all add: month_at_def)
  moreover have "a = 12 * (a div 12) + a mod 12" "b = 12 * (b div 12) + b mod 12" by simp_all
  ultimately show ?thesis by simp
qed

lemma month_key_at_inj:
  assumes "0 \<le> a" "0 \<le> b" "month_key_at a = month_key_at b"
  shows "a = b"
proof -
  have "0 \<le> a div 12" "0 \<le> b div 12" "0 \<le> a mod 12 + 1" "0 \<le> b mod 12 + 1"
    using assms(1,2) by (simp_all add: pos_imp_zdiv_nonneg_iff)
  with assms(3) have "a div 12 = b div 12 \<and> a mod 12 + 1 = b mod 12 + 1"
    unfolding month_key_at_def month_at_def fst_conv snd_conv by (intro month_key_inj)
  then have "month_at a = month_at b" by (simp add: month_at_def)
  then show ?thesis by (rule month_at_inj)
qed

text \<open>
  C1: for every non-empty history whose last month is \<open>(y, m)\<close> with \<open>m\<close> from 1 to 12,
  and every horizon \<open>numMonths\<close>, \<^verbatim>\<open>generateProjections\<close> returns exactly \<open>numMonths\<close>
  projected months. The last historical month is month number \<open>a = 12 y + (m - 1)\<close>, and
  projected month \<open>i\<close> (from 0) carries the key of month number \<open>a + 1 + i\<close>: the keys
  are contiguous and start at the month after the last historical one. The month
  after month 12 of a year is month 1 of the next year, \<open>(year, month)\<close> increases
  strictly with the month number, and for years from 0 on the keys are pairwise
  different.
\<close>

theorem projections_contiguous:
  assumes "monthlyData \<noteq> []"
    and "year (last monthlyData) = Num y" and "month (last monthlyData) = Num m"
    and "1 \<le> m" and "m \<le> 12"
  shows "\<exists>ps. generateProjections incomeModel expenseModel monthlyData maxI maxE mn mx numMonths = Inr ps
           \<and> length ps = numMonths
           \<and> month_at (12 * y + (m - 1)) = (y, m)
           \<and> map p_monthKey ps = map (\<lambda>i. month_key_at (12 * y + (m - 1) + 1 + int i)) [0..<numMonths]
           \<and> (\<forall>a. month_at (a + 1) = (if snd (month_at a) = 12 then (fst (month_at a) + 1, 1)
                                        else (fst (month_at a), snd (month_at a) + 1)))
           \<and> (\<forall>a b. a < b \<longrightarrow> month_at a < month_at b)
           \<and> (0 \<le> y \<longrightarrow> distinct (map p_monthKey ps))"
proof -
  let ?ps = "projection_loop numMonths incomeModel expenseModel maxI maxE mn mx (Num y) (Num m)
               (map totalIncome (drop (length monthlyData - 3) monthlyData))
               (map totalExpenses (drop (length monthlyData - 3) monthlyData))"
  have res: "generateProjections incomeModel expenseModel monthlyData maxI maxE mn mx numMonths = Inr ?ps"
    using assms(1-3) by (simp add: generateProjections_def Let_def)
  have len: "length ?ps = numMonths" by (rule projection_loop_length)
  have last: "month_at (12 * y + (m - 1)) = (y, m)"
    using assms(4,5) by (simp add: month_at_def)
  have "12 * y + (m - 1) + 1 = 12 * y + m" by simp
  then have keys: "map p_monthKey ?ps = map (\<lambda>i. month_key_at (12 * y + (m - 1) + 1 + int i)) [0..<numMonths]"
    using assms(4,5) by (simp only: projection_loop_keys)
  have dist: "distinct (map p_monthKey ?ps)" if "0 \<le> y"
  proof -
    have "inj_on (\<lambda>i. month_key_at (12 * y + (m - 1) + 1 + int i)) (set [0..<numMonths])"
    proof (rule inj_onI)
      fix i j
      assume "month_key_at (12 * y + (m - 1) + 1 + int i) = month_key_at (12 * y + (m - 1) + 1 + int j)"
      moreover have "0 \<le> 12 * y + (m - 1) + 1 + int i" "0 \<le> 12 * y + (m - 1) + 1 + int j"
        using that assms(4) by simp_all
      ultimately have "12 * y + (m - 1) + 1 + int i = 12 * y + (m - 1) + 1 + int j"
        by (intro month_key_at_inj)
      then show "i = j" by simp
    qed
    then show ?thesis unfolding keys by (simp add: distinct_map)
  qed
  from res len last keys month_at_next month_at_mono dist show ?thesis by blast
qed

theorem projections_contiguous_witness:
  "\<exists>ps. generateProjections (\<lambda>f. Num 1) (\<lambda>f. Num 1)
          [\<lparr> year = Num 2024, month = Num 11, monthKey = ''2024-11'', totalIncome = Num 1000,
              totalExpenses = Num 800, transactionCount = 5 \<rparr>]
          (Num 1000) (Num 800) (Num 2024) (Num 2024) 3 = Inr ps
       \<and> length ps = 3
       \<and> map p_monthKey ps = [''2024-12'', ''2025-01'', ''2025-02'']
       \<and> distinct (map p_monthKey ps)"
proof -
  let ?md = "[\<lparr> year = Num 2024, month = Num 11, monthKey = ''2024-11'', totalIncome = Num 1000,
              totalExpenses = Num 800, transactionCount = 5 \<rparr>]"
  have k: "map (\<lambda>i. month_key_at (12 * 2024 + (11 - 1) + 1 + int i)) [0..<3]
         = [''2024-12'', ''2025-01'', ''2025-02'']"
    by (simp add: upt_rec month_key_at_def month_at_def month_key_def padStart_def show_nat.simps
        digit_char_def)
  from projections_contiguous [where monthlyData = ?md and y = 2024 and m = 11
      and incomeModel = "\<lambda>f. Num 1" and expenseModel = "\<lambda>f. Num 1" and maxI = "Num 1000"
      and maxE = "Num 800" and mn = "Num 2024" and mx = "Num 2024" and numMonths = 3]
  obtain ps where "generateProjections (\<lambda>f. Num 1) (\<lambda>f. Num 1) ?md
          (Num 1000) (Num 800) (Num 2024) (Num 2024) 3 = Inr ps"
    and "length ps = 3"
    and "map p_monthKey ps = map (\<lambda>i. month_key_at (12 * 2024 + (11 - 1) + 1 + int i)) [0..<3]"
    and "distinct (map p_monthKey ps)"
    by auto
  with k show ?thesis by auto
qed

section \<open>Properties of the Feature Builder\<close>












section \<open>Properties of the pipeline entry point\<close>

lemma createFeatures_nonempty:
  assumes "monthlyData \<noteq> []"
  shows "\<exists>f. createFeatures monthlyData = Inr f
           \<and> length (features f) = length monthlyData
           \<and> length (incomeLabels f) = length monthlyData
           \<and> length (expenseLabels f) = length monthlyData"
  using assms by (cases monthlyData) (simp_all add: createFeatures_def Let_def)

lemma generateProjections_nonempty:
  assumes "monthlyData \<noteq> []"
  shows "\<exists>ps. generateProjections incomeModel expenseModel monthlyData maxI maxE mn mx n = Inr ps
           \<and> length ps = n"
  using assms by (simp add: generateProjections_def Let_def projection_loop_length)

lemma save_returns: "\<exists>st'. saveProjectionsToStorage stringify result st = Inr st'"
  by (auto simp: saveProjectionsToStorage_def split: sum.splits)

text \<open>
  C2, as the code has it. \<^verbatim>\<open>createFeatures\<close> fails on the empty sequence only, and on
  every sequence of one or more aggregates it returns one feature vector and one
  label of each kind per month. The minimum of three months is enforced one level up:
  once the file is loaded, some record has the requested currency and the aggregation
  has returned, \<^verbatim>\<open>generateAndSaveProjections\<close> fails with its own error when there are
  fewer than 3 aggregated months, before the Feature Builder is called and with the
  store untouched, and returns a result of 12 projections when there are 3 or more.
\<close>

theorem minimum_months_gate:
  "createFeatures [] = Inl (Error ''No monthly data available for feature creation'')
   \<and> (monthlyData \<noteq> [] \<longrightarrow>
        (\<exists>f. createFeatures monthlyData = Inr f
            \<and> length (features f) = length monthlyData
            \<and> length (incomeLabels f) = length monthlyData
            \<and> length (expenseLabels f) = length monthlyData))
   \<and> (loadCSVFile fetch ''seedTransactions_1year_13000_labeled.csv'' = Inr transactions
        \<and> filterByCurrency transactions cur \<noteq> []
        \<and> aggregateByMonth (filterByCurrency transactions cur) = Inr monthlyData
      \<longrightarrow> (length monthlyData < 3 \<longrightarrow>
             generateAndSaveProjections fetch trainIncome trainExpense now stringify cur st
               = (Inl (Error ''Need at least 3 months of data for meaningful predictions''), st))
          \<and> (3 \<le> length monthlyData \<longrightarrow>
               (\<exists>result st'.
                  generateAndSaveProjections fetch trainIncome trainExpense now stringify cur st
                    = (Inr result, st')
                  \<and> historicalMonths result = length monthlyData
                  \<and> length (projections result) = 12)))"
proof (intro conjI impI)
  show "createFeatures [] = Inl (Error ''No monthly data available for feature creation'')"
    by (simp add: createFeatures_def)
next
  assume "monthlyData \<noteq> []"
  then show "\<exists>f. createFeatures monthlyData = Inr f
            \<and> length (features f) = length monthlyData
            \<and> length (incomeLabels f) = length monthlyData
            \<and> length (expenseLabels f) = length monthlyData"
    by (rule createFeatures_nonempty)
next
  assume h: "loadCSVFile fetch ''seedTransactions_1year_13000_labeled.csv'' = Inr transactions
        \<and> filterByCurrency transactions cur \<noteq> []
        \<and> aggregateByMonth (filterByCurrency transactions cur) = Inr monthlyData"
    and "length monthlyData < 3"
  then show "generateAndSaveProjections fetch trainIncome trainExpense now stringify cur st
               = (Inl (Error ''Need at least 3 months of data for meaningful predictions''), st)"
    by (simp add: generateAndSaveProjections_def Let_def)
next
  assume h: "loadCSVFile fetch ''seedTransactions_1year_13000_labeled.csv'' = Inr transactions
        \<and> filterByCurrency transactions cur \<noteq> []
        \<and> aggregateByMonth (filterByCurrency transactions cur) = Inr monthlyData"
    and l: "3 \<le> length monthlyData"
  then have ne: "monthlyData \<noteq> []" by auto
  from createFeatures_nonempty [OF ne] obtain f where f: "createFeatures monthlyData = Inr f" by blast
  from generateProjections_nonempty [OF ne] obtain ps where
    ps: "generateProjections (trainIncome (features f) (incomeLabels f))
           (trainExpense (features f) (expenseLabels f)) monthlyData
           (maxIncome f) (maxExpense f) (minYear f) (maxYear f) 12 = Inr ps"
    and len: "length ps = 12" by blast
  let ?result = "\<lparr> projections = ps, modelAccuracy = None, trainingDate = now,
                    historicalMonths = length monthlyData \<rparr>"
  from save_returns [of stringify ?result st] obtain st' where sv: "saveProjectionsToStorage stringify ?result st = Inr st'"
    by blast
  from h l have "generateAndSaveProjections fetch trainIncome trainExpense now stringify cur st
                    = (Inr ?result, st')"
    by (simp add: generateAndSaveProjections_def Let_def f ps sv)
  with len show "\<exists>result st'.
                  generateAndSaveProjections fetch trainIncome trainExpense now stringify cur st
                    = (Inr result, st')
                  \<and> historicalMonths result = length monthlyData
                  \<and> length (projections result) = 12"
    by (intro exI [of _ ?result] exI [of _ st']) simp
qed

theorem minimum_months_gate_witness:
  "createFeatures [] = Inl (Error ''No monthly data available for feature creation'')
   \<and> (\<exists>f. createFeatures
              [\<lparr> year = Num 2024, month = Num 11, monthKey = ''2024-11'', totalIncome = Num 1000,
                  totalExpenses = Num 0, transactionCount = 1 \<rparr>] = Inr f
          \<and> length (features f) = 1 \<and> length (incomeLabels f) = 1 \<and> length (expenseLabels f) = 1)
   \<and> generateAndSaveProjections
        (\<lambda>url. Inr (Response True ''OK''
           (Inr ''date,type,amount,currency\<newline>2024-11-03,income,1000,GBP'')))
        (\<lambda>xs ys f. Num 1) (\<lambda>xs ys f. Num 1) ''2025-02-01T00:00:00.000Z'' (\<lambda>r. Inr ''{}'') ''GBP''
        \<lparr>items = Map.empty, quota = 100\<rparr>
       = (Inl (Error ''Need at least 3 months of data for meaningful predictions''),
          \<lparr>items = Map.empty, quota = 100\<rparr>)
   \<and> (\<exists>result st'.
         generateAndSaveProjections
           (\<lambda>url. Inr (Response True ''OK''
              (Inr ''date,type,amount,currency\<newline>2024-11-03,income,1000,GBP\<newline>2024-12-03,income,1000,GBP\<newline>2025-01-03,rent,800,GBP'')))
           (\<lambda>xs ys f. Num 1) (\<lambda>xs ys f. Num 1) ''2025-02-01T00:00:00.000Z'' (\<lambda>r. Inr ''{}'') ''GBP''
           \<lparr>items = Map.empty, quota = 100\<rparr>
          = (Inr result, st')
         \<and> historicalMonths result = 3 \<and> length (projections result) = 12)"
proof -
  let ?t1 = "\<lparr> id' = None, date = Some ''2024-11-03'', type' = Some ''income'', category = None,
               description = None, amount = Num 1000, currency = Some ''GBP'', merchantId = None,
               merchantName = None, mcc = None, isRecurring = None, essentiality = None,
               labelRecurring = None, labelEssential = None \<rparr>"
  let ?t2 = "\<lparr> id' = None, date = Some ''2024-12-03'', type' = Some ''income'', category = None,
               description = None, amount = Num 1000, currency = Some ''GBP'', merchantId = None,
               merchantName = None, mcc = None, isRecurring = None, essentiality = None,
               labelRecurring = None, labelEssential = None \<rparr>"
  let ?t3 = "\<lparr> id' = None, date = Some ''2025-01-03'', type' = Some ''rent'', category = None,
               description = None, amount = Num 800, currency = Some ''GBP'', merchantId = None,
               merchantName = None, mcc = None, isRecurring = None, essentiality = None,
               labelRecurring = None, labelEssential = None \<rparr>"
  let ?m1 = "\<lparr> year = Num 2024, month = Num 11, monthKey = ''2024-11'', totalIncome = Num 1000,
               totalExpenses = Num 0, transactionCount = 1 \<rparr>"
  let ?m2 = "\<lparr> year = Num 2024, month = Num 12, monthKey = ''2024-12'', totalIncome = Num 1000,
               totalExpenses = Num 0, transactionCount = 1 \<rparr>"
  let ?m3 = "\<lparr> year = Num 2025, month = Num 1, monthKey = ''2025-01'', totalIncome = Num 0,
               totalExpenses = Num 800, transactionCount = 1 \<rparr>"
  let ?f1 = "\<lambda>url::string. Inr (Response True ''OK''
           (Inr ''date,type,amount,currency\<newline>2024-11-03,income,1000,GBP'')) :: error + response"
  let ?f3 = "\<lambda>url::string. Inr (Response True ''OK''
              (Inr ''date,type,amount,currency\<newline>2024-11-03,income,1000,GBP\<newline>2024-12-03,income,1000,GBP\<newline>2025-01-03,rent,800,GBP'')) :: error + response"
  let ?st = "\<lparr>items = Map.empty, quota = 100\<rparr>"
  have l1: "loadCSVFile ?f1 ''seedTransactions_1year_13000_labeled.csv'' = Inr [?t1]"
    by (simp add: loadCSVFile_def parseCSV_def split_on_def trim_def is_space_def parse_line_def
        List.map_filter_def typedTxn_def row_object_def or_default_def parseFloat_def is_digit_def
        dec_val_def digit_val_def exponent_part_def)
  have l3: "loadCSVFile ?f3 ''seedTransactions_1year_13000_labeled.csv'' = Inr [?t1, ?t2, ?t3]"
    by (simp add: loadCSVFile_def parseCSV_def split_on_def trim_def is_space_def parse_line_def
        List.map_filter_def typedTxn_def row_object_def or_default_def parseFloat_def is_digit_def
        dec_val_def digit_val_def exponent_part_def)
  have c1: "filterByCurrency [?t1] ''GBP'' = [?t1]"
    and c3: "filterByCurrency [?t1, ?t2, ?t3] ''GBP'' = [?t1, ?t2, ?t3]"
    by (simp_all add: filterByCurrency_def)
  have a1: "aggregateByMonth [?t1] = Inr [?m1]"
    by (simp add: aggregateByMonth_def aggregate_txn_def split_on_def js_Number_def is_digit_def
        dec_val_def digit_val_def month_key_def padStart_def show_nat.simps digit_char_def
        add_txn_def Let_def sort_by_def month_cmp_def)
  have a3: "aggregateByMonth [?t1, ?t2, ?t3] = Inr [?m1, ?m2, ?m3]"
    by (simp add: aggregateByMonth_def aggregate_txn_def split_on_def js_Number_def is_digit_def
        dec_val_def digit_val_def month_key_def padStart_def show_nat.simps digit_char_def
        add_txn_def Let_def sort_by_def month_cmp_def)
  note g1 = minimum_months_gate [where monthlyData = "[?m1]" and fetch = ?f1
      and transactions = "[?t1]" and cur = "''GBP''" and trainIncome = "\<lambda>xs ys f. Num 1"
      and trainExpense = "\<lambda>xs ys f. Num 1" and now = "''2025-02-01T00:00:00.000Z''"
      and stringify = "\<lambda>r. Inr ''{}''" and st = ?st]
  note g3 = minimum_months_gate [where monthlyData = "[?m1, ?m2, ?m3]" and fetch = ?f3
      and transactions = "[?t1, ?t2, ?t3]" and cur = "''GBP''" and trainIncome = "\<lambda>xs ys f. Num 1"
      and trainExpense = "\<lambda>xs ys f. Num 1" and now = "''2025-02-01T00:00:00.000Z''"
      and stringify = "\<lambda>r. Inr ''{}''" and st = ?st]
  from g1 have 0: "createFeatures [] = Inl (Error ''No monthly data available for feature creation'')"
    by (rule conjunct1)
  from g1 have 1: "\<exists>f. createFeatures [?m1] = Inr f
          \<and> length (features f) = 1 \<and> length (incomeLabels f) = 1 \<and> length (expenseLabels f) = 1"
    by simp
  from g1 l1 c1 a1 have 2: "generateAndSaveProjections ?f1 (\<lambda>xs ys f. Num 1) (\<lambda>xs ys f. Num 1)
        ''2025-02-01T00:00:00.000Z'' (\<lambda>r. Inr ''{}'') ''GBP'' ?st
       = (Inl (Error ''Need at least 3 months of data for meaningful predictions''), ?st)"
    by simp
  from g3 l3 c3 a3 have 3: "\<exists>result st'.
         generateAndSaveProjections ?f3 (\<lambda>xs ys f. Num 1) (\<lambda>xs ys f. Num 1)
           ''2025-02-01T00:00:00.000Z'' (\<lambda>r. Inr ''{}'') ''GBP'' ?st = (Inr result, st')
         \<and> historicalMonths result = 3 \<and> length (projections result) = 12"
    by auto
  from 0 1 2 3 show ?thesis by blast
qed

text \<open>
  One aggregated month is enough for \<^verbatim>\<open>createFeatures\<close> to succeed.
\<close>

theorem feature_builder_minimum_counterexample:
  "createFeatures
     [\<lparr> year = Num 2024, month = Num 11, monthKey = ''2024-11'', totalIncome = Num 1000,
         totalExpenses = Num 800, transactionCount = 3 \<rparr>]
     = Inr \<lparr> features = [[Num (11 / 12), Num 0, Num 0, Num 0]],
              incomeLabels = [Num 1], expenseLabels = [Num 1],
              maxIncome = Num 1000, maxExpense = Num 800, minYear = Num 2024, maxYear = Num 2024 \<rparr>"
  by (simp add: createFeatures_def math_max_def math_min_def feature_row_def yearRange_def
      normalized_def movingAvg_def Let_def)

end
